theory Spec2Isabelle
  imports Main "HOL-Library.AList" "HOL-Library.Sublist"
begin

section \<open>Common ground of the routers\<close>

text \<open>
  Every router module under \<^verbatim>\<open>src/routers/v1\<close> keeps two module globals: a dictionary
  from ids to row dictionaries and the counter \<^verbatim>\<open>next_id\<close>. A Python \<^verbatim>\<open>dict\<close> iterates in
  insertion order, so the dictionary is an association list: \<^const>\<open>AList.update\<close> is
  \<^verbatim>\<open>d[k] = v\<close> (overwrite in place, or append), \<^const>\<open>AList.delete\<close> is \<^verbatim>\<open>del d[k]\<close>,
  \<^const>\<open>map_of\<close> is the lookup. \<^verbatim>\<open>datetime.now()\<close> is an input of every handler that
  reads the clock.
\<close>

type_synonym datetime = nat

text \<open>
  The handlers raise \<^verbatim>\<open>HTTPException(status_code, detail)\<close>; building a response model
  from a row (\<^verbatim>\<open>Sender(**row)\<close>) raises pydantic's \<^verbatim>\<open>ValidationError\<close> when a required
  field holds \<^verbatim>\<open>None\<close>.
\<close>

datatype error = HTTPException int string | ValidationError

text \<open>
  A field of an update model (\<^verbatim>\<open>Optional[T] = None\<close>) is either absent from the request
  body or supplied, possibly as an explicit \<^verbatim>\<open>null\<close>;
  \<^verbatim>\<open>model_dump(exclude_unset=True)\<close> keeps exactly the supplied ones.
\<close>

datatype 'a field = Unset | Supplied 'a

text \<open>Reading the attribute of an update model: an absent field reads as its default \<^verbatim>\<open>None\<close>.\<close>

fun attr :: "'a option field \<Rightarrow> 'a option" where
  "attr Unset = None"
| "attr (Supplied v) = v"

text \<open>\<^verbatim>\<open>row.update(update_data)\<close>, one key at a time: a supplied field overwrites.\<close>

fun merge :: "'a field \<Rightarrow> 'a \<Rightarrow> 'a" where
  "merge Unset old = old"
| "merge (Supplied v) old = v"

text \<open>Python truthiness of an \<^verbatim>\<open>Optional[str]\<close>: \<^verbatim>\<open>None\<close> and the empty string are falsy.\<close>

fun truthy :: "string option \<Rightarrow> bool" where
  "truthy None = False"
| "truthy (Some s) = (s \<noteq> [])"

text \<open>
  The slice \<^verbatim>\<open>xs[a:b]\<close> for integers of either sign: a negative bound counts from the
  end, and both bounds are clamped to the list.
\<close>

definition slice_bound :: "nat \<Rightarrow> int \<Rightarrow> nat" where
  "slice_bound n a = (if a < 0 then nat (max (a + int n) 0) else min (nat a) n)"

definition py_slice :: "'a list \<Rightarrow> int \<Rightarrow> int \<Rightarrow> 'a list" where
  "py_slice xs a b =
     (let lo = slice_bound (length xs) a; hi = slice_bound (length xs) b
      in take (hi - lo) (drop lo xs))"

text \<open>
  A list comprehension \<^verbatim>\<open>[Model(**row) for row in rows]\<close>: the first row that does not
  validate raises.
\<close>

fun build_all :: "('r \<Rightarrow> error + 'm) \<Rightarrow> 'r list \<Rightarrow> error + 'm list" where
  "build_all mk [] = Inr []"
| "build_all mk (r # rs) =
     (case mk r of
        Inl e \<Rightarrow> Inl e
      | Inr m \<Rightarrow> (case build_all mk rs of Inl e \<Rightarrow> Inl e | Inr ms \<Rightarrow> Inr (m # ms)))"

section \<open>Senders (\<^verbatim>\<open>src/routers/v1/senders.py\<close>)\<close>

text \<open>
  \<^verbatim>\<open>delivery_staffs_router.py\<close> is this module with the identifiers renamed.
  Field names carry a prefix per class, since record fields share one name space:
  \<open>sc_\<close> for \<^verbatim>\<open>SenderCreate\<close>, \<open>su_\<close> for \<^verbatim>\<open>SenderUpdate\<close>, \<open>s_\<close> for \<^verbatim>\<open>Sender\<close>, and
  \<open>sd_\<close> for the row dictionary \<^verbatim>\<open>sender_data\<close> held in \<^verbatim>\<open>senders_db\<close>.
  An \<^verbatim>\<open>EmailStr\<close> is a \<^verbatim>\<open>str\<close> that has passed pydantic's validation before the handler
  runs; here it is a string, and the handlers compare it as one.
\<close>

record SenderCreate =
  sc_name :: string
  sc_email :: string
  sc_phone :: "string option"
  sc_address :: "string option"
  sc_is_active :: bool

text \<open>
  The request body of a create: \<^verbatim>\<open>phone\<close> and \<^verbatim>\<open>address\<close> default to \<^verbatim>\<open>None\<close> and
  \<^verbatim>\<open>is_active\<close> to \<^verbatim>\<open>True\<close> when the caller leaves them out (\<^verbatim>\<open>SenderBase\<close>).
\<close>

definition SenderCreate_body ::
  "string \<Rightarrow> string \<Rightarrow> string option \<Rightarrow> string option \<Rightarrow> bool option \<Rightarrow> SenderCreate" where
  "SenderCreate_body name email phone address is_active =
     \<lparr>sc_name = name, sc_email = email, sc_phone = phone, sc_address = address,
      sc_is_active = (case is_active of None \<Rightarrow> True | Some b \<Rightarrow> b)\<rparr>"

record SenderUpdate =
  su_name :: "string option field"
  su_email :: "string option field"
  su_phone :: "string option field"
  su_address :: "string option field"
  su_is_active :: "bool option field"

record Sender =
  s_id :: int
  s_created_at :: datetime
  s_updated_at :: datetime
  s_name :: string
  s_email :: string
  s_phone :: "string option"
  s_address :: "string option"
  s_is_active :: bool

text \<open>
  A row of \<^verbatim>\<open>senders_db\<close> is an untyped dictionary: \<^verbatim>\<open>update\<close> can store \<^verbatim>\<open>None\<close> under
  any of the five schema keys, so each of them is optional here.
\<close>

record sender_data =
  sd_id :: int
  sd_created_at :: datetime
  sd_updated_at :: datetime
  sd_name :: "string option"
  sd_email :: "string option"
  sd_phone :: "string option"
  sd_address :: "string option"
  sd_is_active :: "bool option"

record senders_state =
  senders_db :: "(int \<times> sender_data) list"
  senders_next_id :: int

definition senders_init :: senders_state where
  "senders_init = \<lparr>senders_db = [], senders_next_id = 1\<rparr>"

text \<open>\<^verbatim>\<open>Sender(**row)\<close>: \<^verbatim>\<open>name\<close>, \<^verbatim>\<open>email\<close> and \<^verbatim>\<open>is_active\<close> are required and not optional.\<close>

definition mk_Sender :: "sender_data \<Rightarrow> error + Sender" where
  "mk_Sender d =
     (case (sd_name d, sd_email d, sd_is_active d) of
        (Some n, Some e, Some a) \<Rightarrow>
          Inr \<lparr>s_id = sd_id d, s_created_at = sd_created_at d, s_updated_at = sd_updated_at d,
               s_name = n, s_email = e, s_phone = sd_phone d, s_address = sd_address d,
               s_is_active = a\<rparr>
      | _ \<Rightarrow> Inl ValidationError)"

text \<open>\<^verbatim>\<open>get_senders(skip, limit, is_active)\<close>\<close>

definition get_senders :: "int \<Rightarrow> int \<Rightarrow> bool option \<Rightarrow> senders_state \<Rightarrow> error + Sender list" where
  "get_senders skip limit is_active st =
     (let senders = map snd (senders_db st);
          senders = (case is_active of
                       None \<Rightarrow> senders
                     | Some b \<Rightarrow> filter (\<lambda>s. sd_is_active s = Some b) senders);
          senders = py_slice senders skip (skip + limit)
      in build_all mk_Sender senders)"

text \<open>\<^verbatim>\<open>get_sender(sender_id)\<close>\<close>

definition get_sender :: "int \<Rightarrow> senders_state \<Rightarrow> error + Sender" where
  "get_sender sender_id st =
     (case map_of (senders_db st) sender_id of
        None \<Rightarrow> Inl (HTTPException 404 ''Sender not found'')
      | Some d \<Rightarrow> mk_Sender d)"

text \<open>
  \<^verbatim>\<open>create_sender(sender)\<close>: the row is stored before the response is built, and
  \<^verbatim>\<open>next_id\<close> is advanced after it.
\<close>

definition create_sender ::
  "datetime \<Rightarrow> SenderCreate \<Rightarrow> senders_state \<Rightarrow> (error + Sender) \<times> senders_state" where
  "create_sender now sender st =
     (if list_ex (\<lambda>existing_sender. sd_email existing_sender = Some (sc_email sender))
           (map snd (senders_db st))
      then (Inl (HTTPException 400 ''Email already registered''), st)
      else
        let sender_data =
              \<lparr>sd_id = senders_next_id st, sd_created_at = now, sd_updated_at = now,
               sd_name = Some (sc_name sender), sd_email = Some (sc_email sender),
               sd_phone = sc_phone sender, sd_address = sc_address sender,
               sd_is_active = Some (sc_is_active sender)\<rparr>;
            st1 = st\<lparr>senders_db := AList.update (senders_next_id st) sender_data (senders_db st)\<rparr>
        in case mk_Sender sender_data of
             Inl e \<Rightarrow> (Inl e, st1)
           | Inr result \<Rightarrow> (Inr result, st1\<lparr>senders_next_id := senders_next_id st1 + 1\<rparr>))"

text \<open>
  \<^verbatim>\<open>update_sender(sender_id, sender_update)\<close>: the email check runs only when the
  supplied email is truthy; the supplied fields are then written into the stored row
  before the response is built.
\<close>

definition su_unset :: "SenderUpdate \<Rightarrow> bool" where
  "su_unset u \<longleftrightarrow>
     su_name u = Unset \<and> su_email u = Unset \<and> su_phone u = Unset \<and> su_address u = Unset
     \<and> su_is_active u = Unset"

definition update_sender ::
  "datetime \<Rightarrow> int \<Rightarrow> SenderUpdate \<Rightarrow> senders_state \<Rightarrow> (error + Sender) \<times> senders_state" where
  "update_sender now sender_id sender_update st =
     (case map_of (senders_db st) sender_id of
        None \<Rightarrow> (Inl (HTTPException 404 ''Sender not found''), st)
      | Some existing_sender \<Rightarrow>
          if truthy (attr (su_email sender_update))
             \<and> list_ex (\<lambda>(sid, existing). sid \<noteq> sender_id
                                          \<and> sd_email existing = attr (su_email sender_update))
                  (senders_db st)
          then (Inl (HTTPException 400 ''Email already registered''), st)
          else if su_unset sender_update then (mk_Sender existing_sender, st)
          else
            let updated =
                  existing_sender
                    \<lparr>sd_name := merge (su_name sender_update) (sd_name existing_sender),
                     sd_email := merge (su_email sender_update) (sd_email existing_sender),
                     sd_phone := merge (su_phone sender_update) (sd_phone existing_sender),
                     sd_address := merge (su_address sender_update) (sd_address existing_sender),
                     sd_is_active :=
                       merge (su_is_active sender_update) (sd_is_active existing_sender),
                     sd_updated_at := now\<rparr>
            in (mk_Sender updated,
                st\<lparr>senders_db := AList.update sender_id updated (senders_db st)\<rparr>))"

text \<open>\<^verbatim>\<open>patch_sender\<close> awaits \<^verbatim>\<open>update_sender\<close>.\<close>

definition patch_sender ::
  "datetime \<Rightarrow> int \<Rightarrow> SenderUpdate \<Rightarrow> senders_state \<Rightarrow> (error + Sender) \<times> senders_state" where
  "patch_sender now sender_id sender_update st = update_sender now sender_id sender_update st"

text \<open>\<^verbatim>\<open>delete_sender(sender_id)\<close>\<close>

definition delete_sender :: "int \<Rightarrow> senders_state \<Rightarrow> (error + unit) \<times> senders_state" where
  "delete_sender sender_id st =
     (case map_of (senders_db st) sender_id of
        None \<Rightarrow> (Inl (HTTPException 404 ''Sender not found''), st)
      | Some _ \<Rightarrow> (Inr (), st\<lparr>senders_db := AList.delete sender_id (senders_db st)\<rparr>))"

text \<open>\<^verbatim>\<open>activate_sender(sender_id)\<close>\<close>

definition activate_sender ::
  "datetime \<Rightarrow> int \<Rightarrow> senders_state \<Rightarrow> (error + Sender) \<times> senders_state" where
  "activate_sender now sender_id st =
     (case map_of (senders_db st) sender_id of
        None \<Rightarrow> (Inl (HTTPException 404 ''Sender not found''), st)
      | Some d \<Rightarrow>
          let d' = d\<lparr>sd_is_active := Some True, sd_updated_at := now\<rparr>
          in (mk_Sender d', st\<lparr>senders_db := AList.update sender_id d' (senders_db st)\<rparr>))"

text \<open>\<^verbatim>\<open>deactivate_sender(sender_id)\<close>\<close>

definition deactivate_sender ::
  "datetime \<Rightarrow> int \<Rightarrow> senders_state \<Rightarrow> (error + Sender) \<times> senders_state" where
  "deactivate_sender now sender_id st =
     (case map_of (senders_db st) sender_id of
        None \<Rightarrow> (Inl (HTTPException 404 ''Sender not found''), st)
      | Some d \<Rightarrow>
          let d' = d\<lparr>sd_is_active := Some False, sd_updated_at := now\<rparr>
          in (mk_Sender d', st\<lparr>senders_db := AList.update sender_id d' (senders_db st)\<rparr>))"

subsection \<open>The senders router as a request handler\<close>

text \<open>
  One request per route of the module; requests that read the clock carry the reading.
  \<open>serve\<close> handles requests one after the other on the module's globals and
  collects the responses.
\<close>

datatype sender_request =
    GetSenders int int "bool option"
  | GetSender int
  | CreateSender datetime SenderCreate
  | UpdateSender datetime int SenderUpdate
  | PatchSender datetime int SenderUpdate
  | DeleteSender int
  | ActivateSender datetime int
  | DeactivateSender datetime int

datatype sender_response = OneSender Sender | ManySenders "Sender list" | NoContent

definition respond ::
  "('a \<Rightarrow> sender_response) \<Rightarrow> (error + 'a) \<times> senders_state
     \<Rightarrow> (error + sender_response) \<times> senders_state" where
  "respond f p = (map_sum (\<lambda>e. e) f (fst p), snd p)"

fun handle_sender ::
  "sender_request \<Rightarrow> senders_state \<Rightarrow> (error + sender_response) \<times> senders_state" where
  "handle_sender (GetSenders skip limit is_active) st =
     respond ManySenders (get_senders skip limit is_active st, st)"
| "handle_sender (GetSender i) st = respond OneSender (get_sender i st, st)"
| "handle_sender (CreateSender now sender) st = respond OneSender (create_sender now sender st)"
| "handle_sender (UpdateSender now i u) st = respond OneSender (update_sender now i u st)"
| "handle_sender (PatchSender now i u) st = respond OneSender (patch_sender now i u st)"
| "handle_sender (DeleteSender i) st = respond (\<lambda>_. NoContent) (delete_sender i st)"
| "handle_sender (ActivateSender now i) st = respond OneSender (activate_sender now i st)"
| "handle_sender (DeactivateSender now i) st = respond OneSender (deactivate_sender now i st)"

fun serve ::
  "sender_request list \<Rightarrow> senders_state \<Rightarrow> (error + sender_response) list \<times> senders_state" where
  "serve [] st = ([], st)"
| "serve (r # rs) st =
     (let (out, st1) = handle_sender r st; (outs, st2) = serve rs st1 in (out # outs, st2))"

text \<open>The ids handed out by the successful creates of a run, in order.\<close>

fun created_id :: "sender_request \<Rightarrow> error + sender_response \<Rightarrow> int list" where
  "created_id (CreateSender _ _) (Inr (OneSender s)) = [s_id s]"
| "created_id _ _ = []"

definition created_ids :: "sender_request list \<Rightarrow> senders_state \<Rightarrow> int list" where
  "created_ids rs st = concat (map2 created_id rs (fst (serve rs st)))"


section \<open>Vehicles (\<^verbatim>\<open>src/routers/v1/vehicles.py\<close>)\<close>

text \<open>
  The same handlers over another schema; the unique field is \<^verbatim>\<open>license_plate\<close>, a plain
  \<^verbatim>\<open>str\<close>. Prefixes: \<open>vc_\<close>, \<open>vu_\<close>, \<open>v_\<close> and \<open>vd_\<close>.
\<close>

record VehicleCreate =
  vc_license_plate :: string
  vc_type :: "string option"
  vc_brand :: "string option"
  vc_color :: "string option"
  vc_is_active :: bool

record VehicleUpdate =
  vu_license_plate :: "string option field"
  vu_type :: "string option field"
  vu_brand :: "string option field"
  vu_color :: "string option field"
  vu_is_active :: "bool option field"

record Vehicle =
  v_id :: int
  v_created_at :: datetime
  v_updated_at :: datetime
  v_license_plate :: string
  v_type :: "string option"
  v_brand :: "string option"
  v_color :: "string option"
  v_is_active :: bool

record vehicle_data =
  vd_id :: int
  vd_created_at :: datetime
  vd_updated_at :: datetime
  vd_license_plate :: "string option"
  vd_type :: "string option"
  vd_brand :: "string option"
  vd_color :: "string option"
  vd_is_active :: "bool option"

record vehicles_state =
  vehicles_db :: "(int \<times> vehicle_data) list"
  vehicles_next_id :: int

definition vehicles_init :: vehicles_state where
  "vehicles_init = \<lparr>vehicles_db = [], vehicles_next_id = 1\<rparr>"

definition mk_Vehicle :: "vehicle_data \<Rightarrow> error + Vehicle" where
  "mk_Vehicle d =
     (case (vd_license_plate d, vd_is_active d) of
        (Some p, Some a) \<Rightarrow>
          Inr \<lparr>v_id = vd_id d, v_created_at = vd_created_at d, v_updated_at = vd_updated_at d,
               v_license_plate = p, v_type = vd_type d, v_brand = vd_brand d,
               v_color = vd_color d, v_is_active = a\<rparr>
      | _ \<Rightarrow> Inl ValidationError)"

text \<open>\<^verbatim>\<open>create_vehicle(vehicle)\<close>\<close>

definition create_vehicle ::
  "datetime \<Rightarrow> VehicleCreate \<Rightarrow> vehicles_state \<Rightarrow> (error + Vehicle) \<times> vehicles_state" where
  "create_vehicle now vehicle st =
     (if list_ex (\<lambda>existing_vehicle.
                     vd_license_plate existing_vehicle = Some (vc_license_plate vehicle))
           (map snd (vehicles_db st))
      then (Inl (HTTPException 400 ''License plate already exists''), st)
      else
        let vehicle_data =
              \<lparr>vd_id = vehicles_next_id st, vd_created_at = now, vd_updated_at = now,
               vd_license_plate = Some (vc_license_plate vehicle), vd_type = vc_type vehicle,
               vd_brand = vc_brand vehicle, vd_color = vc_color vehicle,
               vd_is_active = Some (vc_is_active vehicle)\<rparr>;
            st1 = st\<lparr>vehicles_db :=
                       AList.update (vehicles_next_id st) vehicle_data (vehicles_db st)\<rparr>
        in case mk_Vehicle vehicle_data of
             Inl e \<Rightarrow> (Inl e, st1)
           | Inr result \<Rightarrow> (Inr result, st1\<lparr>vehicles_next_id := vehicles_next_id st1 + 1\<rparr>))"

text \<open>\<^verbatim>\<open>update_vehicle(vehicle_id, vehicle_update)\<close>\<close>

definition vu_unset :: "VehicleUpdate \<Rightarrow> bool" where
  "vu_unset u \<longleftrightarrow>
     vu_license_plate u = Unset \<and> vu_type u = Unset \<and> vu_brand u = Unset \<and> vu_color u = Unset
     \<and> vu_is_active u = Unset"

definition update_vehicle ::
  "datetime \<Rightarrow> int \<Rightarrow> VehicleUpdate \<Rightarrow> vehicles_state \<Rightarrow> (error + Vehicle) \<times> vehicles_state"
  where
  "update_vehicle now vehicle_id vehicle_update st =
     (case map_of (vehicles_db st) vehicle_id of
        None \<Rightarrow> (Inl (HTTPException 404 ''Vehicle not found''), st)
      | Some existing_vehicle \<Rightarrow>
          if truthy (attr (vu_license_plate vehicle_update))
             \<and> list_ex (\<lambda>(vid, existing). vid \<noteq> vehicle_id
                          \<and> vd_license_plate existing = attr (vu_license_plate vehicle_update))
                  (vehicles_db st)
          then (Inl (HTTPException 400 ''License plate already exists''), st)
          else if vu_unset vehicle_update then (mk_Vehicle existing_vehicle, st)
          else
            let updated =
                  existing_vehicle
                    \<lparr>vd_license_plate :=
                       merge (vu_license_plate vehicle_update) (vd_license_plate existing_vehicle),
                     vd_type := merge (vu_type vehicle_update) (vd_type existing_vehicle),
                     vd_brand := merge (vu_brand vehicle_update) (vd_brand existing_vehicle),
                     vd_color := merge (vu_color vehicle_update) (vd_color existing_vehicle),
                     vd_is_active :=
                       merge (vu_is_active vehicle_update) (vd_is_active existing_vehicle),
                     vd_updated_at := now\<rparr>
            in (mk_Vehicle updated,
                st\<lparr>vehicles_db := AList.update vehicle_id updated (vehicles_db st)\<rparr>))"

section \<open>Stations (\<^verbatim>\<open>src/routers/v1/stations_router.py\<close>)\<close>

text \<open>The unique field is \<^verbatim>\<open>name\<close>. Prefixes: \<open>tc_\<close>, \<open>tu_\<close>, \<open>t_\<close> and \<open>td_\<close>.\<close>

record StationCreate =
  tc_name :: string
  tc_location :: "string option"
  tc_is_active :: bool

record StationUpdate =
  tu_name :: "string option field"
  tu_location :: "string option field"
  tu_is_active :: "bool option field"

record Station =
  t_id :: int
  t_created_at :: datetime
  t_updated_at :: datetime
  t_name :: string
  t_location :: "string option"
  t_is_active :: bool

record station_data =
  td_id :: int
  td_created_at :: datetime
  td_updated_at :: datetime
  td_name :: "string option"
  td_location :: "string option"
  td_is_active :: "bool option"

record stations_state =
  stations_db :: "(int \<times> station_data) list"
  stations_next_id :: int

definition stations_init :: stations_state where
  "stations_init = \<lparr>stations_db = [], stations_next_id = 1\<rparr>"

definition mk_Station :: "station_data \<Rightarrow> error + Station" where
  "mk_Station d =
     (case (td_name d, td_is_active d) of
        (Some n, Some a) \<Rightarrow>
          Inr \<lparr>t_id = td_id d, t_created_at = td_created_at d, t_updated_at = td_updated_at d,
               t_name = n, t_location = td_location d, t_is_active = a\<rparr>
      | _ \<Rightarrow> Inl ValidationError)"

text \<open>\<^verbatim>\<open>create_station(station)\<close>\<close>

definition create_station ::
  "datetime \<Rightarrow> StationCreate \<Rightarrow> stations_state \<Rightarrow> (error + Station) \<times> stations_state" where
  "create_station now station st =
     (if list_ex (\<lambda>existing_station. td_name existing_station = Some (tc_name station))
           (map snd (stations_db st))
      then (Inl (HTTPException 400 ''Station name already exists''), st)
      else
        let station_data =
              \<lparr>td_id = stations_next_id st, td_created_at = now, td_updated_at = now,
               td_name = Some (tc_name station), td_location = tc_location station,
               td_is_active = Some (tc_is_active station)\<rparr>;
            st1 = st\<lparr>stations_db :=
                       AList.update (stations_next_id st) station_data (stations_db st)\<rparr>
        in case mk_Station station_data of
             Inl e \<Rightarrow> (Inl e, st1)
           | Inr result \<Rightarrow> (Inr result, st1\<lparr>stations_next_id := stations_next_id st1 + 1\<rparr>))"

text \<open>\<^verbatim>\<open>update_station(station_id, station_update)\<close>\<close>

definition tu_unset :: "StationUpdate \<Rightarrow> bool" where
  "tu_unset u \<longleftrightarrow> tu_name u = Unset \<and> tu_location u = Unset \<and> tu_is_active u = Unset"

definition update_station ::
  "datetime \<Rightarrow> int \<Rightarrow> StationUpdate \<Rightarrow> stations_state \<Rightarrow> (error + Station) \<times> stations_state"
  where
  "update_station now station_id station_update st =
     (case map_of (stations_db st) station_id of
        None \<Rightarrow> (Inl (HTTPException 404 ''Station not found''), st)
      | Some existing_station \<Rightarrow>
          if truthy (attr (tu_name station_update))
             \<and> list_ex (\<lambda>(sid, existing). sid \<noteq> station_id
                          \<and> td_name existing = attr (tu_name station_update))
                  (stations_db st)
          then (Inl (HTTPException 400 ''Station name already exists''), st)
          else if tu_unset station_update then (mk_Station existing_station, st)
          else
            let updated =
                  existing_station
                    \<lparr>td_name := merge (tu_name station_update) (td_name existing_station),
                     td_location :=
                       merge (tu_location station_update) (td_location existing_station),
                     td_is_active :=
                       merge (tu_is_active station_update) (td_is_active existing_station),
                     td_updated_at := now\<rparr>
            in (mk_Station updated,
                st\<lparr>stations_db := AList.update station_id updated (stations_db st)\<rparr>))"


section \<open>Notions used in the statements\<close>

text \<open>
  The rows that pass the \<^verbatim>\<open>is_active\<close> filter of \<open>get_senders\<close>, in storage order,
  and the rows from which \<^verbatim>\<open>Sender(**row)\<close> can be built.
\<close>

definition senders_matching :: "bool option \<Rightarrow> senders_state \<Rightarrow> sender_data list" where
  "senders_matching is_active st =
     filter (\<lambda>s. case is_active of None \<Rightarrow> True | Some b \<Rightarrow> sd_is_active s = Some b)
       (map snd (senders_db st))"

definition sender_data_valid :: "sender_data \<Rightarrow> bool" where
  "sender_data_valid d \<longleftrightarrow> sd_name d \<noteq> None \<and> sd_email d \<noteq> None \<and> sd_is_active d \<noteq> None"

text \<open>
  \<open>activate_sender\<close> and \<open>deactivate_sender\<close> are one handler up to the flag they
  store; the lemmas about them are proved once, for either flag.
\<close>

definition set_sender_active ::
  "bool \<Rightarrow> datetime \<Rightarrow> int \<Rightarrow> senders_state \<Rightarrow> (error + Sender) \<times> senders_state" where
  "set_sender_active flag now sender_id st =
     (case map_of (senders_db st) sender_id of
        None \<Rightarrow> (Inl (HTTPException 404 ''Sender not found''), st)
      | Some d \<Rightarrow>
          let d' = d\<lparr>sd_is_active := Some flag, sd_updated_at := now\<rparr>
          in (mk_Sender d', st\<lparr>senders_db := AList.update sender_id d' (senders_db st)\<rparr>))"

text \<open>
  What every run of the senders router maintains: the keys of \<^verbatim>\<open>senders_db\<close> ascend in
  storage order, every row carries its key as \<^verbatim>\<open>id\<close>, and every key is below the counter.
\<close>

definition senders_inv :: "senders_state \<Rightarrow> bool" where
  "senders_inv st \<longleftrightarrow>
     sorted_wrt (<) (map fst (senders_db st))
     \<and> (\<forall>(k, d) \<in> set (senders_db st). sd_id d = k \<and> k < senders_next_id st)"

text \<open>No two rows of \<^verbatim>\<open>vehicles_db\<close> hold the same value under \<^verbatim>\<open>license_plate\<close>.\<close>

definition vehicles_unique :: "vehicles_state \<Rightarrow> bool" where
  "vehicles_unique st \<longleftrightarrow> distinct (map (\<lambda>(k, d). vd_license_plate d) (vehicles_db st))"

section \<open>Example requests and the globals they leave\<close>

text \<open>Update bodies with no field supplied: \<^verbatim>\<open>{}\<close>.\<close>

definition SenderUpdate_empty :: SenderUpdate where
  "SenderUpdate_empty =
     \<lparr>su_name = Unset, su_email = Unset, su_phone = Unset, su_address = Unset,
      su_is_active = Unset\<rparr>"

definition VehicleUpdate_empty :: VehicleUpdate where
  "VehicleUpdate_empty =
     \<lparr>vu_license_plate = Unset, vu_type = Unset, vu_brand = Unset, vu_color = Unset,
      vu_is_active = Unset\<rparr>"

definition StationUpdate_empty :: StationUpdate where
  "StationUpdate_empty = \<lparr>tu_name = Unset, tu_location = Unset, tu_is_active = Unset\<rparr>"

text \<open>A create body that supplies the license plate only.\<close>

definition VehicleCreate_plate :: "string \<Rightarrow> VehicleCreate" where
  "VehicleCreate_plate p =
     \<lparr>vc_license_plate = p, vc_type = None, vc_brand = None, vc_color = None,
      vc_is_active = True\<rparr>"

text \<open>Two senders A and B, created at times 1 and 2.\<close>

definition senders_two :: senders_state where
  "senders_two =
     snd (create_sender 2 (SenderCreate_body ''B'' ''b@x.com'' None None None)
       (snd (create_sender 1 (SenderCreate_body ''A'' ''a@x.com'' None None None) senders_init)))"

text \<open>Then \<^verbatim>\<open>PUT /senders/1\<close> with the body \<^verbatim>\<open>{"name": null}\<close> at time 3.\<close>

definition senders_null_name :: senders_state where
  "senders_null_name =
     snd (update_sender 3 1 (SenderUpdate_empty\<lparr>su_name := Supplied None\<rparr>) senders_two)"

text \<open>A longer run: four creates, a deactivation and a deletion in between.\<close>

definition senders_busy :: "sender_request list" where
  "senders_busy =
     [CreateSender 1 (SenderCreate_body ''A'' ''a@x.com'' None None None),
      CreateSender 2 (SenderCreate_body ''B'' ''b@x.com'' None None None),
      DeactivateSender 3 2,
      CreateSender 4 (SenderCreate_body ''C'' ''c@x.com'' None None None),
      DeleteSender 1,
      CreateSender 5 (SenderCreate_body ''D'' ''d@x.com'' None None None)]"

text \<open>Two vehicles, the first with the empty string as its plate, the second \<^verbatim>\<open>ABC-1\<close>.\<close>

definition vehicles_two :: vehicles_state where
  "vehicles_two =
     snd (create_vehicle 2 (VehicleCreate_plate ''ABC-1'')
       (snd (create_vehicle 1 (VehicleCreate_plate '''') vehicles_init)))"

text \<open>One station \<^verbatim>\<open>S1\<close>.\<close>

definition stations_one :: stations_state where
  "stations_one =
     snd (create_station 1 \<lparr>tc_name = ''S1'', tc_location = None, tc_is_active = True\<rparr>
            stations_init)"

section \<open>Dictionaries, slices and response lists\<close>

lemma set_update_subset: "set (AList.update k v al) \<subseteq> insert (k, v) (set al)"
  by (induction al) auto

lemma update_fresh_append:
  "k \<notin> fst ` set al \<Longrightarrow> AList.update k v al = al @ [(k, v)]"
  by (induction al) auto

lemma update_present_keys:
  "k \<in> fst ` set al \<Longrightarrow> map fst (AList.update k v al) = map fst al"
  by (simp add: update_keys)

lemma sorted_keys_delete:
  "sorted_wrt (<) (map fst al)
   \<Longrightarrow> sorted_wrt (<) (map fst (AList.delete k (al :: (int \<times> 'a) list)))"
  by (simp add: delete_keys removeAll_filter_not_eq sorted_wrt_filter)

lemma set_delete_subset: "set (AList.delete k al) \<subseteq> set al"
  by (auto simp: AList.delete_eq)

lemma py_slice_nonneg:
  assumes "0 \<le> a" "0 \<le> l"
  shows "py_slice xs a (a + l) = take (nat l) (drop (nat a) xs)"
proof (cases "nat a \<le> length xs")
  case True
  have "min (nat (a + l)) (length xs) - nat a = min (nat l) (length xs - nat a)"
    using assms by (simp add: nat_add_distrib min_def)
  moreover have "take (min (nat l) (length xs - nat a)) (drop (nat a) xs)
               = take (nat l) (drop (nat a) xs)"
    by (simp add: min_def)
  ultimately show ?thesis
    using assms True by (simp add: py_slice_def slice_bound_def Let_def min_absorb1)
next
  case False
  then show ?thesis using assms by (simp add: py_slice_def slice_bound_def Let_def)
qed

lemma py_slice_beyond:
  assumes "0 \<le> a" "int (length xs) \<le> a"
  shows "py_slice xs a b = []"
  using assms by (simp add: py_slice_def slice_bound_def Let_def)

lemma py_slice_subset: "set (py_slice xs a b) \<subseteq> set xs"
  by (auto simp: py_slice_def Let_def dest: in_set_takeD in_set_dropD)

lemma build_all_ok:
  "(\<And>r. r \<in> set rs \<Longrightarrow> \<exists>m. mk r = Inr m) \<Longrightarrow> \<exists>ms. build_all mk rs = Inr ms"
proof (induction rs)
  case Nil
  show ?case by simp
next
  case (Cons r rs)
  then obtain m ms where "mk r = Inr m" "build_all mk rs = Inr ms"
    by (meson list.set_intros)
  then show ?case by simp
qed

lemma build_all_Inr: "build_all mk rs = Inr ms \<Longrightarrow> map mk rs = map Inr ms"
  by (induction rs arbitrary: ms) (auto split: sum.splits)

section \<open>Senders: what each handler does to the globals\<close>

lemma activate_sender_eq: "activate_sender = set_sender_active True"
  by (intro ext) (simp add: activate_sender_def set_sender_active_def)

lemma deactivate_sender_eq: "deactivate_sender = set_sender_active False"
  by (intro ext) (simp add: deactivate_sender_def set_sender_active_def)

lemma create_sender_eq:
  "create_sender now sender st =
     (if list_ex (\<lambda>d. sd_email d = Some (sc_email sender)) (map snd (senders_db st))
      then (Inl (HTTPException 400 ''Email already registered''), st)
      else (Inr \<lparr>s_id = senders_next_id st, s_created_at = now, s_updated_at = now,
                 s_name = sc_name sender, s_email = sc_email sender, s_phone = sc_phone sender,
                 s_address = sc_address sender, s_is_active = sc_is_active sender\<rparr>,
            \<lparr>senders_db = AList.update (senders_next_id st)
                 \<lparr>sd_id = senders_next_id st, sd_created_at = now, sd_updated_at = now,
                  sd_name = Some (sc_name sender), sd_email = Some (sc_email sender),
                  sd_phone = sc_phone sender, sd_address = sc_address sender,
                  sd_is_active = Some (sc_is_active sender)\<rparr> (senders_db st),
              senders_next_id = senders_next_id st + 1\<rparr>))"
  by (simp add: create_sender_def mk_Sender_def Let_def)

lemma update_sender_next_id:
  "senders_next_id (snd (update_sender now i u st)) = senders_next_id st"
  by (simp add: update_sender_def Let_def split: option.splits)

lemma delete_sender_next_id:
  "senders_next_id (snd (delete_sender i st)) = senders_next_id st"
  by (simp add: delete_sender_def split: option.splits)

lemma set_sender_active_next_id:
  "senders_next_id (snd (set_sender_active b now i st)) = senders_next_id st"
  by (simp add: set_sender_active_def Let_def split: option.splits)

text \<open>A request either hands out no id and leaves the counter, or hands out the counter's
  value and advances it by one.\<close>

lemma handle_sender_counter:
  "created_id r (fst (handle_sender r st)) = [] \<and>
     senders_next_id (snd (handle_sender r st)) = senders_next_id st
   \<or> created_id r (fst (handle_sender r st)) = [senders_next_id st] \<and>
     senders_next_id (snd (handle_sender r st)) = senders_next_id st + 1"
proof (cases r)
  case (CreateSender now sender)
  then show ?thesis by (simp add: respond_def create_sender_eq)
qed (simp_all add: respond_def update_sender_next_id delete_sender_next_id
      set_sender_active_next_id patch_sender_def activate_sender_eq deactivate_sender_eq)

lemma created_ids_Nil: "created_ids [] st = []"
  by (simp add: created_ids_def)

lemma created_ids_Cons:
  "created_ids (r # rs) st =
     created_id r (fst (handle_sender r st)) @ created_ids rs (snd (handle_sender r st))"
  by (simp add: created_ids_def split_beta Let_def)

lemma created_ids_from:
  "created_ids rs st =
     [senders_next_id st .. senders_next_id st + int (length (created_ids rs st)) - 1]"
proof (induction rs arbitrary: st)
  case Nil
  show ?case by (simp add: created_ids_Nil)
next
  case (Cons r rs)
  let ?st1 = "snd (handle_sender r st)"
  from handle_sender_counter [of r st] show ?case
  proof (elim disjE conjE)
    assume "created_id r (fst (handle_sender r st)) = []"
      and "senders_next_id ?st1 = senders_next_id st"
    then show ?thesis using Cons.IH [of ?st1] by (simp add: created_ids_Cons)
  next
    assume a: "created_id r (fst (handle_sender r st)) = [senders_next_id st]"
      and b: "senders_next_id ?st1 = senders_next_id st + 1"
    have "created_ids (r # rs) st = senders_next_id st # created_ids rs ?st1"
      by (simp add: created_ids_Cons a)
    also have "created_ids rs ?st1 =
        [senders_next_id st + 1 ..
         senders_next_id st + 1 + int (length (created_ids rs ?st1)) - 1]"
      using Cons.IH [of ?st1] b by simp
    finally show ?thesis
      by (simp add: upto_rec1 [of "senders_next_id st"] created_ids_Cons a)
  qed
qed

section \<open>Identifiers\<close>

text \<open>
  Claim C2. Whatever requests the senders router serves from its initial globals
  (creates, updates, activations, deletions, reads, in any order), the ids returned by
  the successful creates are, in order, 1, 2, ..., k: strictly increasing positive
  integers starting at 1, none handed out twice, whether or not the record that held an
  id has been deleted in between.
\<close>

theorem created_ids_count_up:
  "created_ids rs senders_init = [1 .. int (length (created_ids rs senders_init))]"
  using created_ids_from [of rs senders_init] by (simp add: senders_init_def)


section \<open>The globals of the examples\<close>

lemma create_vehicle_eq:
  "create_vehicle now vehicle st =
     (if list_ex (\<lambda>d. vd_license_plate d = Some (vc_license_plate vehicle))
           (map snd (vehicles_db st))
      then (Inl (HTTPException 400 ''License plate already exists''), st)
      else (Inr \<lparr>v_id = vehicles_next_id st, v_created_at = now, v_updated_at = now,
                 v_license_plate = vc_license_plate vehicle, v_type = vc_type vehicle,
                 v_brand = vc_brand vehicle, v_color = vc_color vehicle,
                 v_is_active = vc_is_active vehicle\<rparr>,
            \<lparr>vehicles_db = AList.update (vehicles_next_id st)
                 \<lparr>vd_id = vehicles_next_id st, vd_created_at = now, vd_updated_at = now,
                  vd_license_plate = Some (vc_license_plate vehicle), vd_type = vc_type vehicle,
                  vd_brand = vc_brand vehicle, vd_color = vc_color vehicle,
                  vd_is_active = Some (vc_is_active vehicle)\<rparr> (vehicles_db st),
              vehicles_next_id = vehicles_next_id st + 1\<rparr>))"
  by (simp add: create_vehicle_def mk_Vehicle_def Let_def)

lemma create_station_eq:
  "create_station now station st =
     (if list_ex (\<lambda>d. td_name d = Some (tc_name station)) (map snd (stations_db st))
      then (Inl (HTTPException 400 ''Station name already exists''), st)
      else (Inr \<lparr>t_id = stations_next_id st, t_created_at = now, t_updated_at = now,
                 t_name = tc_name station, t_location = tc_location station,
                 t_is_active = tc_is_active station\<rparr>,
            \<lparr>stations_db = AList.update (stations_next_id st)
                 \<lparr>td_id = stations_next_id st, td_created_at = now, td_updated_at = now,
                  td_name = Some (tc_name station), td_location = tc_location station,
                  td_is_active = Some (tc_is_active station)\<rparr> (stations_db st),
              stations_next_id = stations_next_id st + 1\<rparr>))"
  by (simp add: create_station_def mk_Station_def Let_def)

lemma senders_two_eq:
  "senders_two =
     \<lparr>senders_db =
        [(1, \<lparr>sd_id = 1, sd_created_at = 1, sd_updated_at = 1, sd_name = Some ''A'',
              sd_email = Some ''a@x.com'', sd_phone = None, sd_address = None,
              sd_is_active = Some True\<rparr>),
         (2, \<lparr>sd_id = 2, sd_created_at = 2, sd_updated_at = 2, sd_name = Some ''B'',
              sd_email = Some ''b@x.com'', sd_phone = None, sd_address = None,
              sd_is_active = Some True\<rparr>)],
      senders_next_id = 3\<rparr>"
  by (simp add: senders_two_def create_sender_eq SenderCreate_body_def senders_init_def)

lemma vehicles_two_eq:
  "vehicles_two =
     \<lparr>vehicles_db =
        [(1, \<lparr>vd_id = 1, vd_created_at = 1, vd_updated_at = 1, vd_license_plate = Some '''',
              vd_type = None, vd_brand = None, vd_color = None, vd_is_active = Some True\<rparr>),
         (2, \<lparr>vd_id = 2, vd_created_at = 2, vd_updated_at = 2,
              vd_license_plate = Some ''ABC-1'',
              vd_type = None, vd_brand = None, vd_color = None, vd_is_active = Some True\<rparr>)],
      vehicles_next_id = 3\<rparr>"
  by (simp add: vehicles_two_def create_vehicle_eq VehicleCreate_plate_def vehicles_init_def)

lemma stations_one_eq:
  "stations_one =
     \<lparr>stations_db =
        [(1, \<lparr>td_id = 1, td_created_at = 1, td_updated_at = 1, td_name = Some ''S1'',
              td_location = None, td_is_active = Some True\<rparr>)],
      stations_next_id = 2\<rparr>"
  by (simp add: stations_one_def create_station_eq stations_init_def)

text \<open>
  The update with \<^verbatim>\<open>{"name": null}\<close> raises when the response is built, after the row
  has been overwritten: the row keeps \<^verbatim>\<open>None\<close> under \<^verbatim>\<open>name\<close>.
\<close>

lemma update_sender_null_name:
  "update_sender 3 1 (SenderUpdate_empty\<lparr>su_name := Supplied None\<rparr>) senders_two =
     (Inl ValidationError,
      \<lparr>senders_db =
        [(1, \<lparr>sd_id = 1, sd_created_at = 1, sd_updated_at = 3, sd_name = None,
              sd_email = Some ''a@x.com'', sd_phone = None, sd_address = None,
              sd_is_active = Some True\<rparr>),
         (2, \<lparr>sd_id = 2, sd_created_at = 2, sd_updated_at = 2, sd_name = Some ''B'',
              sd_email = Some ''b@x.com'', sd_phone = None, sd_address = None,
              sd_is_active = Some True\<rparr>)],
      senders_next_id = 3\<rparr>)"
  by (simp add: update_sender_def senders_two_eq SenderUpdate_empty_def su_unset_def
      mk_Sender_def Let_def)

lemma senders_null_name_eq:
  "senders_null_name =
      \<lparr>senders_db =
        [(1, \<lparr>sd_id = 1, sd_created_at = 1, sd_updated_at = 3, sd_name = None,
              sd_email = Some ''a@x.com'', sd_phone = None, sd_address = None,
              sd_is_active = Some True\<rparr>),
         (2, \<lparr>sd_id = 2, sd_created_at = 2, sd_updated_at = 2, sd_name = Some ''B'',
              sd_email = Some ''b@x.com'', sd_phone = None, sd_address = None,
              sd_is_active = Some True\<rparr>)],
      senders_next_id = 3\<rparr>"
  by (simp add: senders_null_name_def update_sender_null_name)

lemma senders_busy_state:
  "snd (serve senders_busy senders_init) =
     \<lparr>senders_db =
        [(2, \<lparr>sd_id = 2, sd_created_at = 2, sd_updated_at = 3, sd_name = Some ''B'',
              sd_email = Some ''b@x.com'', sd_phone = None, sd_address = None,
              sd_is_active = Some False\<rparr>),
         (3, \<lparr>sd_id = 3, sd_created_at = 4, sd_updated_at = 4, sd_name = Some ''C'',
              sd_email = Some ''c@x.com'', sd_phone = None, sd_address = None,
              sd_is_active = Some True\<rparr>),
         (4, \<lparr>sd_id = 4, sd_created_at = 5, sd_updated_at = 5, sd_name = Some ''D'',
              sd_email = Some ''d@x.com'', sd_phone = None, sd_address = None,
              sd_is_active = Some True\<rparr>)],
      senders_next_id = 5\<rparr>"
  by (simp add: senders_busy_def senders_init_def respond_def create_sender_eq
      SenderCreate_body_def deactivate_sender_eq set_sender_active_def delete_sender_def
      mk_Sender_def Let_def)

text \<open>The run hands out the ids 1 to 4, although sender 1 is deleted before the last create.\<close>

lemma created_ids_busy: "created_ids senders_busy senders_init = [1, 2, 3, 4]"
  by (simp add: created_ids_def senders_busy_def senders_init_def respond_def create_sender_eq
      SenderCreate_body_def deactivate_sender_eq set_sender_active_def delete_sender_def
      mk_Sender_def Let_def)

section \<open>Storage order of the senders\<close>

lemma senders_inv_init: "senders_inv senders_init"
  by (simp add: senders_inv_def senders_init_def)

lemma senders_inv_replace:
  assumes "senders_inv st" "map_of (senders_db st) i = Some d" "sd_id d' = sd_id d"
  shows "senders_inv (st\<lparr>senders_db := AList.update i d' (senders_db st)\<rparr>)"
proof -
  have mem: "(i, d) \<in> set (senders_db st)" using assms(2) by (rule map_of_SomeD)
  then have "i \<in> fst ` set (senders_db st)" by force
  then have keys: "map fst (AList.update i d' (senders_db st)) = map fst (senders_db st)"
    by (rule update_present_keys)
  have "sd_id d = i" "i < senders_next_id st"
    using assms(1) mem by (auto simp: senders_inv_def)
  then show ?thesis
    using assms(1,3) keys set_update_subset [of i d' "senders_db st"]
    by (auto simp: senders_inv_def)
qed

lemma senders_inv_create:
  assumes "senders_inv st"
  shows "senders_inv (snd (create_sender now sender st))"
proof -
  let ?k = "senders_next_id st"
  have fresh: "?k \<notin> fst ` set (senders_db st)"
    using assms by (auto simp: senders_inv_def)
  have below: "\<forall>k \<in> set (map fst (senders_db st)). k < ?k"
    using assms by (auto simp: senders_inv_def)
  show ?thesis
    using assms below
    by (auto simp: create_sender_def mk_Sender_def Let_def senders_inv_def
        update_fresh_append [OF fresh] sorted_wrt_append)
qed

lemma senders_inv_update:
  assumes "senders_inv st"
  shows "senders_inv (snd (update_sender now i u st))"
proof (cases "map_of (senders_db st) i")
  case None
  then show ?thesis using assms by (simp add: update_sender_def)
next
  case (Some d)
  show ?thesis
    using assms Some senders_inv_replace [OF assms Some]
    by (simp add: update_sender_def Let_def)
qed

lemma senders_inv_set_active:
  assumes "senders_inv st"
  shows "senders_inv (snd (set_sender_active b now i st))"
proof (cases "map_of (senders_db st) i")
  case None
  then show ?thesis using assms by (simp add: set_sender_active_def)
next
  case (Some d)
  show ?thesis
    using assms Some senders_inv_replace [OF assms Some]
    by (simp add: set_sender_active_def Let_def)
qed

lemma senders_inv_delete:
  assumes "senders_inv st"
  shows "senders_inv (snd (delete_sender i st))"
  using assms sorted_keys_delete [of "senders_db st" i] set_delete_subset [of i "senders_db st"]
  by (auto simp: delete_sender_def senders_inv_def split: option.splits)

lemma senders_inv_handle:
  "senders_inv st \<Longrightarrow> senders_inv (snd (handle_sender r st))"
  by (cases r)
     (simp_all add: respond_def senders_inv_create senders_inv_update senders_inv_delete
        senders_inv_set_active patch_sender_def activate_sender_eq deactivate_sender_eq)

lemma serve_Cons_snd: "snd (serve (r # rs) st) = snd (serve rs (snd (handle_sender r st)))"
  by (simp add: split_beta Let_def)

lemma senders_inv_serve: "senders_inv st \<Longrightarrow> senders_inv (snd (serve rs st))"
proof (induction rs arbitrary: st)
  case Nil
  then show ?case by simp
next
  case (Cons r rs)
  then show ?case by (simp only: serve_Cons_snd senders_inv_handle)
qed

lemma senders_inv_ids_sorted:
  assumes "senders_inv st"
  shows "sorted_wrt (<) (map sd_id (map snd (senders_db st)))"
proof -
  have "map sd_id (map snd (senders_db st)) = map fst (senders_db st)"
    using assms by (auto simp: senders_inv_def)
  moreover have "sorted_wrt (<) (map fst (senders_db st))"
    using assms by (simp add: senders_inv_def)
  ultimately show ?thesis by (simp only:)
qed


section \<open>Uniqueness of the license plate\<close>

lemma distinct_field_update:
  assumes "distinct (map fst al)" and "distinct (map (\<lambda>(k, d). f d) al)"
    and "\<forall>(k, d) \<in> set al. k \<noteq> i \<longrightarrow> f d \<noteq> f d'"
  shows "distinct (map (\<lambda>(k, d). f d) (AList.update i d' al))"
  using assms
proof (induction al)
  case Nil
  then show ?case by simp
next
  case (Cons p al)
  obtain k d where p: "p = (k, d)" by (cases p)
  show ?case
  proof (cases "k = i")
    case True
    have "f d' \<notin> (\<lambda>(k, d). f d) ` set al"
    proof
      assume "f d' \<in> (\<lambda>(k, d). f d) ` set al"
      then obtain k2 d2 where m: "(k2, d2) \<in> set al" "f d2 = f d'" by auto
      with Cons.prems(1) p True have "k2 \<noteq> i" by force
      with Cons.prems(3) m show False by auto
    qed
    with Cons.prems(2) p True show ?thesis by simp
  next
    case False
    have "f d \<noteq> f d'" using Cons.prems(3) p False by simp
    moreover have "set (AList.update i d' al) \<subseteq> insert (i, d') (set al)"
      by (rule set_update_subset)
    ultimately have "f d \<notin> (\<lambda>(k, d). f d) ` set (AList.update i d' al)"
      using Cons.prems(2) p by (auto simp: image_iff)
    moreover have "distinct (map (\<lambda>(k, d). f d) (AList.update i d' al))"
      using Cons.IH Cons.prems p by simp
    ultimately show ?thesis using p False by simp
  qed
qed

text \<open>A create keeps the plates distinct (the counter names no stored key).\<close>

lemma create_vehicle_unique:
  assumes "vehicles_unique st" and "vehicles_next_id st \<notin> fst ` set (vehicles_db st)"
  shows "vehicles_unique (snd (create_vehicle now vehicle st))"
proof (cases "list_ex (\<lambda>d. vd_license_plate d = Some (vc_license_plate vehicle))
           (map snd (vehicles_db st))")
  case True
  then show ?thesis using assms(1) by (simp add: create_vehicle_eq)
next
  case False
  then have "Some (vc_license_plate vehicle)
      \<notin> (\<lambda>(k, d). vd_license_plate d) ` set (vehicles_db st)"
    by (auto simp: list_ex_iff)
  then show ?thesis
    using assms False
    by (simp add: create_vehicle_eq vehicles_unique_def update_fresh_append)
qed

text \<open>
  An update keeps the plates distinct when it leaves the plate out or supplies a truthy
  one. The remaining bodies, \<^verbatim>\<open>{"license_plate": ""}\<close> and \<^verbatim>\<open>{"license_plate": null}\<close>,
  skip the check of \<open>update_vehicle\<close>.
\<close>

lemma update_vehicle_unique:
  assumes "vehicles_unique st" and "distinct (map fst (vehicles_db st))"
    and "vu_license_plate u = Unset \<or> truthy (attr (vu_license_plate u))"
  shows "vehicles_unique (snd (update_vehicle now i u st))"
proof (cases "map_of (vehicles_db st) i")
  case None
  then show ?thesis using assms(1) by (simp add: update_vehicle_def)
next
  case (Some d)
  let ?conflict = "truthy (attr (vu_license_plate u))
      \<and> list_ex (\<lambda>(vid, existing). vid \<noteq> i
                    \<and> vd_license_plate existing = attr (vu_license_plate u)) (vehicles_db st)"
  show ?thesis
  proof (cases "?conflict \<or> vu_unset u")
    case True
    then show ?thesis using assms(1) Some by (auto simp: update_vehicle_def)
  next
    case False
    let ?d' = "d\<lparr>vd_license_plate := merge (vu_license_plate u) (vd_license_plate d),
                 vd_type := merge (vu_type u) (vd_type d),
                 vd_brand := merge (vu_brand u) (vd_brand d),
                 vd_color := merge (vu_color u) (vd_color d),
                 vd_is_active := merge (vu_is_active u) (vd_is_active d),
                 vd_updated_at := now\<rparr>"
    have st': "snd (update_vehicle now i u st) =
        st\<lparr>vehicles_db := AList.update i ?d' (vehicles_db st)\<rparr>"
      using Some False by (auto simp: update_vehicle_def Let_def)
    have others: "\<forall>(k, e) \<in> set (vehicles_db st).
        k \<noteq> i \<longrightarrow> vd_license_plate e \<noteq> vd_license_plate ?d'"
    proof (cases "vu_license_plate u")
      case Unset
      have "vd_license_plate e \<noteq> vd_license_plate d"
        if "(k, e) \<in> set (vehicles_db st)" "k \<noteq> i" for k e
      proof
        assume eq: "vd_license_plate e = vd_license_plate d"
        have "(i, d) \<in> set (vehicles_db st)" using Some by (rule map_of_SomeD)
        with that eq assms(1) show False
          unfolding vehicles_unique_def
          by (metis (mono_tags, lifting) case_prod_conv distinct_map inj_onD prod.inject)
      qed
      with Unset show ?thesis by auto
    next
      case (Supplied v)
      with assms(3) have "truthy v" by simp
      with False Supplied have "\<not> list_ex (\<lambda>(vid, existing). vid \<noteq> i
                    \<and> vd_license_plate existing = v) (vehicles_db st)"
        by simp
      with Supplied show ?thesis by (auto simp: list_ex_iff)
    qed
    have "distinct (map (\<lambda>(k, d). vd_license_plate d) (AList.update i ?d' (vehicles_db st)))"
      using assms(2) assms(1) [unfolded vehicles_unique_def] others
      by (rule distinct_field_update)
    then show ?thesis by (simp add: st' vehicles_unique_def)
  qed
qed

text \<open>
  Claim C1 (no two stored records of a collection share the value of the unique field,
  in any reachable state) fails on the vehicles router. After two creates, with the
  plates \<^verbatim>\<open>""\<close> (id 1) and \<^verbatim>\<open>"ABC-1"\<close> (id 2), \<^verbatim>\<open>PUT /vehicles/2\<close> with the body
  \<^verbatim>\<open>{"license_plate": ""}\<close> succeeds: the guard \<^verbatim>\<open>if vehicle_update.license_plate:\<close> is
  falsy for the empty string, the loop that looks for the plate among the other rows is
  not entered, and both rows then hold the plate \<^verbatim>\<open>""\<close>.
\<close>

theorem update_vehicle_duplicates_plate:
  "update_vehicle 3 2 (VehicleUpdate_empty\<lparr>vu_license_plate := Supplied (Some '''')\<rparr>)
       vehicles_two =
     (Inr \<lparr>v_id = 2, v_created_at = 2, v_updated_at = 3, v_license_plate = '''',
           v_type = None, v_brand = None, v_color = None, v_is_active = True\<rparr>,
      \<lparr>vehicles_db =
        [(1, \<lparr>vd_id = 1, vd_created_at = 1, vd_updated_at = 1, vd_license_plate = Some '''',
              vd_type = None, vd_brand = None, vd_color = None, vd_is_active = Some True\<rparr>),
         (2, \<lparr>vd_id = 2, vd_created_at = 2, vd_updated_at = 3, vd_license_plate = Some '''',
              vd_type = None, vd_brand = None, vd_color = None, vd_is_active = Some True\<rparr>)],
       vehicles_next_id = 3\<rparr>)
   \<and> vehicles_unique vehicles_two
   \<and> \<not> vehicles_unique
         (snd (update_vehicle 3 2
                 (VehicleUpdate_empty\<lparr>vu_license_plate := Supplied (Some '''')\<rparr>) vehicles_two))"
  by (simp add: update_vehicle_def vehicles_two_eq VehicleUpdate_empty_def vu_unset_def
      mk_Vehicle_def vehicles_unique_def Let_def)


section \<open>Updates\<close>

lemma update_sender_conflict:
  "fst (update_sender now i u st) = Inl (HTTPException 400 detail)
   \<Longrightarrow> snd (update_sender now i u st) = st"
  by (auto simp: update_sender_def mk_Sender_def Let_def split: option.splits if_splits)

lemma update_vehicle_conflict:
  "fst (update_vehicle now i u st) = Inl (HTTPException 400 detail)
   \<Longrightarrow> snd (update_vehicle now i u st) = st"
  by (auto simp: update_vehicle_def mk_Vehicle_def Let_def split: option.splits if_splits)

text \<open>The two paths of an update that passes the checks: some field supplied, or none.\<close>

lemma update_sender_result:
  assumes "map_of (senders_db st) i = Some d"
    and "\<not> (truthy (attr (su_email u))
            \<and> list_ex (\<lambda>(sid, existing). sid \<noteq> i \<and> sd_email existing = attr (su_email u))
                 (senders_db st))"
    and "\<not> su_unset u"
  shows "update_sender now i u st =
     (mk_Sender (d\<lparr>sd_name := merge (su_name u) (sd_name d),
                  sd_email := merge (su_email u) (sd_email d),
                  sd_phone := merge (su_phone u) (sd_phone d),
                  sd_address := merge (su_address u) (sd_address d),
                  sd_is_active := merge (su_is_active u) (sd_is_active d),
                  sd_updated_at := now\<rparr>),
      st\<lparr>senders_db := AList.update i
           (d\<lparr>sd_name := merge (su_name u) (sd_name d),
              sd_email := merge (su_email u) (sd_email d),
              sd_phone := merge (su_phone u) (sd_phone d),
              sd_address := merge (su_address u) (sd_address d),
              sd_is_active := merge (su_is_active u) (sd_is_active d),
              sd_updated_at := now\<rparr>) (senders_db st)\<rparr>)"
  using assms by (auto simp: update_sender_def Let_def)

lemma update_sender_empty:
  assumes "map_of (senders_db st) i = Some d" and "su_unset u"
  shows "update_sender now i u st = (mk_Sender d, st)"
proof -
  have "attr (su_email u) = None" using assms(2) by (simp add: su_unset_def)
  then show ?thesis using assms by (simp add: update_sender_def)
qed

text \<open>
  On a row whose required fields are present, the update with no field supplied returns
  the row as it is and leaves the globals, \<^verbatim>\<open>updated_at\<close> included.
\<close>

lemma update_sender_empty_valid:
  assumes "map_of (senders_db st) i = Some d" and "su_unset u"
    and "sd_name d = Some n" and "sd_email d = Some e" and "sd_is_active d = Some a"
  shows "update_sender now i u st =
     (Inr \<lparr>s_id = sd_id d, s_created_at = sd_created_at d, s_updated_at = sd_updated_at d,
           s_name = n, s_email = e, s_phone = sd_phone d, s_address = sd_address d,
           s_is_active = a\<rparr>, st)"
proof -
  have "update_sender now i u st = (mk_Sender d, st)"
    using assms(1,2) by (rule update_sender_empty)
  then show ?thesis using assms(3-5) by (simp add: mk_Sender_def)
qed

text \<open>
  Claim C3. When an update of a sender or of a vehicle fails with the HTTP 400 of the
  duplicate check, the module's globals are what they were before the call: every row,
  the targeted one included, and the counter. No supplied field has been written and
  \<^verbatim>\<open>updated_at\<close> is not refreshed.
\<close>

theorem update_conflict_leaves_globals:
  "(fst (update_sender now i u st) = Inl (HTTPException 400 detail)
      \<longrightarrow> snd (update_sender now i u st) = st)
   \<and> (fst (update_vehicle now' i' u' st') = Inl (HTTPException 400 detail')
      \<longrightarrow> snd (update_vehicle now' i' u' st') = st')"
  by (simp add: update_sender_conflict update_vehicle_conflict)

text \<open>
  The failure does occur: sender 2 asks for the email of sender 1, vehicle 1 for the
  plate of vehicle 2, each together with another field.
\<close>

theorem update_conflict_leaves_globals_witness:
  "fst (update_sender 3 2 (SenderUpdate_empty\<lparr>su_name := Supplied (Some ''Z''),
          su_email := Supplied (Some ''a@x.com'')\<rparr>) senders_two)
     = Inl (HTTPException 400 ''Email already registered'')
   \<and> snd (update_sender 3 2 (SenderUpdate_empty\<lparr>su_name := Supplied (Some ''Z''),
          su_email := Supplied (Some ''a@x.com'')\<rparr>) senders_two) = senders_two
   \<and> fst (update_vehicle 3 1 (VehicleUpdate_empty\<lparr>vu_license_plate := Supplied (Some ''ABC-1''),
          vu_color := Supplied (Some ''red'')\<rparr>) vehicles_two)
     = Inl (HTTPException 400 ''License plate already exists'')
   \<and> snd (update_vehicle 3 1 (VehicleUpdate_empty\<lparr>vu_license_plate := Supplied (Some ''ABC-1''),
          vu_color := Supplied (Some ''red'')\<rparr>) vehicles_two) = vehicles_two"
proof -
  let ?u = "SenderUpdate_empty\<lparr>su_name := Supplied (Some ''Z''),
          su_email := Supplied (Some ''a@x.com'')\<rparr>"
  let ?v = "VehicleUpdate_empty\<lparr>vu_license_plate := Supplied (Some ''ABC-1''),
          vu_color := Supplied (Some ''red'')\<rparr>"
  have s: "fst (update_sender 3 2 ?u senders_two)
      = Inl (HTTPException 400 ''Email already registered'')"
    by (simp add: update_sender_def senders_two_eq SenderUpdate_empty_def)
  have v: "fst (update_vehicle 3 1 ?v vehicles_two)
      = Inl (HTTPException 400 ''License plate already exists'')"
    by (simp add: update_vehicle_def vehicles_two_eq VehicleUpdate_empty_def)
  from update_conflict_leaves_globals
      [of 3 2 ?u senders_two "''Email already registered''"
          3 1 ?v vehicles_two "''License plate already exists''"] s v
  show ?thesis by simp
qed

text \<open>
  Claim C4. When an update of an existing sender succeeds, the stored row differs from
  the row before the call only in the supplied fields and in \<^verbatim>\<open>updated_at\<close>: \<^verbatim>\<open>id\<close> and
  \<^verbatim>\<open>created_at\<close> are kept, every field absent from the body keeps its value, every
  supplied field holds the supplied value, \<^verbatim>\<open>updated_at\<close> is the time of the call (when
  at least one field was supplied), and the response is built from that row. No other
  row, no key and not the counter changes. For a body with the single field f this is:
  only f and \<^verbatim>\<open>updated_at\<close> change.
\<close>

theorem update_sender_touches_supplied_only:
  assumes "update_sender now i u st = (Inr r, st')"
    and "map_of (senders_db st) i = Some d"
  shows "\<exists>d'. map_of (senders_db st') i = Some d' \<and> mk_Sender d' = Inr r
      \<and> sd_id d' = sd_id d \<and> sd_created_at d' = sd_created_at d
      \<and> (su_name u = Unset \<longrightarrow> sd_name d' = sd_name d)
      \<and> (su_email u = Unset \<longrightarrow> sd_email d' = sd_email d)
      \<and> (su_phone u = Unset \<longrightarrow> sd_phone d' = sd_phone d)
      \<and> (su_address u = Unset \<longrightarrow> sd_address d' = sd_address d)
      \<and> (su_is_active u = Unset \<longrightarrow> sd_is_active d' = sd_is_active d)
      \<and> (\<forall>v. su_name u = Supplied v \<longrightarrow> sd_name d' = v)
      \<and> (\<forall>v. su_email u = Supplied v \<longrightarrow> sd_email d' = v)
      \<and> (\<forall>v. su_phone u = Supplied v \<longrightarrow> sd_phone d' = v)
      \<and> (\<forall>v. su_address u = Supplied v \<longrightarrow> sd_address d' = v)
      \<and> (\<forall>v. su_is_active u = Supplied v \<longrightarrow> sd_is_active d' = v)
      \<and> sd_updated_at d' = (if su_unset u then sd_updated_at d else now)
      \<and> (\<forall>k. k \<noteq> i \<longrightarrow> map_of (senders_db st') k = map_of (senders_db st) k)
      \<and> map fst (senders_db st') = map fst (senders_db st)
      \<and> senders_next_id st' = senders_next_id st"
proof -
  let ?conflict = "truthy (attr (su_email u))
            \<and> list_ex (\<lambda>(sid, existing). sid \<noteq> i \<and> sd_email existing = attr (su_email u))
                 (senders_db st)"
  have nc: "\<not> ?conflict"
    using assms by (auto simp: update_sender_def)
  have key: "i \<in> fst ` set (senders_db st)"
    using assms(2) by (force dest: map_of_SomeD)
  show ?thesis
  proof (cases "su_unset u")
    case True
    then have "update_sender now i u st = (mk_Sender d, st)"
      using assms(2) by (rule update_sender_empty [rotated])
    with assms have "mk_Sender d = Inr r" "st' = st" by simp_all
    with assms(2) True show ?thesis by (auto simp: su_unset_def)
  next
    case False
    let ?d' = "d\<lparr>sd_name := merge (su_name u) (sd_name d),
                  sd_email := merge (su_email u) (sd_email d),
                  sd_phone := merge (su_phone u) (sd_phone d),
                  sd_address := merge (su_address u) (sd_address d),
                  sd_is_active := merge (su_is_active u) (sd_is_active d),
                  sd_updated_at := now\<rparr>"
    have "update_sender now i u st =
        (mk_Sender ?d', st\<lparr>senders_db := AList.update i ?d' (senders_db st)\<rparr>)"
      using assms(2) nc False by (rule update_sender_result)
    with assms(1) have r: "mk_Sender ?d' = Inr r"
      and st': "st' = st\<lparr>senders_db := AList.update i ?d' (senders_db st)\<rparr>"
      by simp_all
    have look: "map_of (senders_db st') i = Some ?d'"
      by (simp add: st' update_conv')
    have others: "\<forall>k. k \<noteq> i \<longrightarrow> map_of (senders_db st') k = map_of (senders_db st) k"
      by (simp add: st' update_conv')
    have keys: "map fst (senders_db st') = map fst (senders_db st)"
      using key by (simp add: st' update_present_keys)
    have cnt: "senders_next_id st' = senders_next_id st" by (simp add: st')
    have fields: "sd_id ?d' = sd_id d \<and> sd_created_at ?d' = sd_created_at d
      \<and> (su_name u = Unset \<longrightarrow> sd_name ?d' = sd_name d)
      \<and> (su_email u = Unset \<longrightarrow> sd_email ?d' = sd_email d)
      \<and> (su_phone u = Unset \<longrightarrow> sd_phone ?d' = sd_phone d)
      \<and> (su_address u = Unset \<longrightarrow> sd_address ?d' = sd_address d)
      \<and> (su_is_active u = Unset \<longrightarrow> sd_is_active ?d' = sd_is_active d)
      \<and> (\<forall>v. su_name u = Supplied v \<longrightarrow> sd_name ?d' = v)
      \<and> (\<forall>v. su_email u = Supplied v \<longrightarrow> sd_email ?d' = v)
      \<and> (\<forall>v. su_phone u = Supplied v \<longrightarrow> sd_phone ?d' = v)
      \<and> (\<forall>v. su_address u = Supplied v \<longrightarrow> sd_address ?d' = v)
      \<and> (\<forall>v. su_is_active u = Supplied v \<longrightarrow> sd_is_active ?d' = v)
      \<and> sd_updated_at ?d' = (if su_unset u then sd_updated_at d else now)"
      using False by simp
    from look r fields others keys cnt show ?thesis by blast
  qed
qed

text \<open>
  \<^verbatim>\<open>PUT /senders/1\<close> with the body \<^verbatim>\<open>{"phone": "0812"}\<close> at time 5: the row of sender 1
  afterwards is the row before with \<^verbatim>\<open>phone\<close> and \<^verbatim>\<open>updated_at\<close> replaced.
\<close>

theorem update_sender_touches_supplied_only_witness:
  "\<exists>d'. map_of (senders_db (snd (update_sender 5 1
            (SenderUpdate_empty\<lparr>su_phone := Supplied (Some ''0812'')\<rparr>) senders_two))) 1 = Some d'
      \<and> d' = \<lparr>sd_id = 1, sd_created_at = 1, sd_updated_at = 5, sd_name = Some ''A'',
              sd_email = Some ''a@x.com'', sd_phone = Some ''0812'', sd_address = None,
              sd_is_active = Some True\<rparr>"
proof -
  let ?u = "SenderUpdate_empty\<lparr>su_phone := Supplied (Some ''0812'')\<rparr>"
  let ?d = "\<lparr>sd_id = 1, sd_created_at = 1, sd_updated_at = 1, sd_name = Some ''A'',
              sd_email = Some ''a@x.com'', sd_phone = None, sd_address = None,
              sd_is_active = Some True\<rparr>"
  let ?r = "\<lparr>s_id = 1, s_created_at = 1, s_updated_at = 5, s_name = ''A'',
              s_email = ''a@x.com'', s_phone = Some ''0812'', s_address = None,
              s_is_active = True\<rparr>"
  obtain st' where run: "update_sender 5 1 ?u senders_two = (Inr ?r, st')"
    by (simp add: update_sender_def senders_two_eq SenderUpdate_empty_def su_unset_def
        mk_Sender_def Let_def)
  have row: "map_of (senders_db senders_two) 1 = Some ?d"
    by (simp add: senders_two_eq)
  have unset: "su_name ?u = Unset" "su_email ?u = Unset" "su_address ?u = Unset"
    "su_is_active ?u = Unset" "su_phone ?u = Supplied (Some ''0812'')" "\<not> su_unset ?u"
    by (simp_all add: SenderUpdate_empty_def su_unset_def)
  from update_sender_touches_supplied_only [OF run row] obtain d' where
    d': "map_of (senders_db st') 1 = Some d'" "sd_id d' = 1" "sd_created_at d' = 1"
      "sd_name d' = Some ''A''" "sd_email d' = Some ''a@x.com''" "sd_address d' = None"
      "sd_is_active d' = Some True" "sd_phone d' = Some ''0812''" "sd_updated_at d' = 5"
    using unset by auto
  then have "d' = \<lparr>sd_id = 1, sd_created_at = 1, sd_updated_at = 5, sd_name = Some ''A'',
              sd_email = Some ''a@x.com'', sd_phone = Some ''0812'', sd_address = None,
              sd_is_active = Some True\<rparr>"
    by (cases d') simp
  with d'(1) run show ?thesis by simp
qed

text \<open>
  Claim C10 (an update with no field supplied succeeds on every existing record and
  returns it unchanged) fails on a record the store can hold. \<^verbatim>\<open>PUT /senders/1\<close> with
  \<^verbatim>\<open>{"name": null}\<close> has written \<^verbatim>\<open>None\<close> under \<^verbatim>\<open>name\<close> before it raised; the following
  \<^verbatim>\<open>PUT /senders/1\<close> with \<^verbatim>\<open>{}\<close> applies nothing, leaves the globals, and raises the
  validation error when it builds \<^verbatim>\<open>Sender(**existing_sender)\<close>.
\<close>

theorem update_sender_empty_after_null_name:
  "fst (update_sender 3 1 (SenderUpdate_empty\<lparr>su_name := Supplied None\<rparr>) senders_two)
     = Inl ValidationError
   \<and> map_of (senders_db senders_null_name) 1 =
       Some \<lparr>sd_id = 1, sd_created_at = 1, sd_updated_at = 3, sd_name = None,
             sd_email = Some ''a@x.com'', sd_phone = None, sd_address = None,
             sd_is_active = Some True\<rparr>
   \<and> update_sender 4 1 SenderUpdate_empty senders_null_name =
       (Inl ValidationError, senders_null_name)"
proof -
  have "fst (update_sender 3 1 (SenderUpdate_empty\<lparr>su_name := Supplied None\<rparr>) senders_two)
      = Inl ValidationError"
    by (simp add: update_sender_null_name)
  moreover have "map_of (senders_db senders_null_name) 1 =
       Some \<lparr>sd_id = 1, sd_created_at = 1, sd_updated_at = 3, sd_name = None,
             sd_email = Some ''a@x.com'', sd_phone = None, sd_address = None,
             sd_is_active = Some True\<rparr>"
    by (simp add: senders_null_name_eq)
  moreover have "update_sender 4 1 SenderUpdate_empty senders_null_name =
       (Inl ValidationError, senders_null_name)"
    by (simp add: update_sender_def senders_null_name_eq SenderUpdate_empty_def su_unset_def
        mk_Sender_def)
  ultimately show ?thesis by blast
qed


section \<open>Creates\<close>

lemma create_sender_duplicate:
  assumes "(k, d) \<in> set (senders_db st)" and "sd_email d = Some (sc_email sender)"
  shows "create_sender now sender st = (Inl (HTTPException 400 ''Email already registered''), st)"
proof -
  have "list_ex (\<lambda>d. sd_email d = Some (sc_email sender)) (map snd (senders_db st))"
    using assms by (force simp: list_ex_iff)
  then show ?thesis by (simp add: create_sender_eq)
qed

lemma create_station_duplicate:
  assumes "(k, d) \<in> set (stations_db st)" and "td_name d = Some (tc_name station)"
  shows "create_station now station st =
           (Inl (HTTPException 400 ''Station name already exists''), st)"
proof -
  have "list_ex (\<lambda>d. td_name d = Some (tc_name station)) (map snd (stations_db st))"
    using assms by (force simp: list_ex_iff)
  then show ?thesis by (simp add: create_station_eq)
qed

text \<open>
  Claim C5, as the code has it. A create whose unique field (the email of a sender, the
  name of a station) equals that of a stored record fails with an HTTP 400 whose detail
  is a fixed text that names the field, \<^verbatim>\<open>Email already registered\<close> or
  \<^verbatim>\<open>Station name already exists\<close>, and the globals are left as they were: no row
  added, counter not advanced. The error does not carry the conflicting value.
\<close>

theorem create_duplicate_rejected:
  "((k, d) \<in> set (senders_db st) \<and> sd_email d = Some (sc_email sender)
      \<longrightarrow> create_sender now sender st =
            (Inl (HTTPException 400 ''Email already registered''), st))
   \<and> ((k', d') \<in> set (stations_db st') \<and> td_name d' = Some (tc_name station)
      \<longrightarrow> create_station now' station st' =
            (Inl (HTTPException 400 ''Station name already exists''), st'))"
  using create_sender_duplicate [of k d st sender now]
    create_station_duplicate [of k' d' st' station now']
  by blast

text \<open>A third sender with the email of sender 1; a second station named \<^verbatim>\<open>S1\<close>.\<close>

theorem create_duplicate_rejected_witness:
  "create_sender 3 (SenderCreate_body ''C'' ''a@x.com'' None None None) senders_two =
     (Inl (HTTPException 400 ''Email already registered''), senders_two)
   \<and> create_station 2 \<lparr>tc_name = ''S1'', tc_location = Some ''Zone A'', tc_is_active = True\<rparr>
        stations_one =
     (Inl (HTTPException 400 ''Station name already exists''), stations_one)"
  using create_duplicate_rejected
    [of 1 "\<lparr>sd_id = 1, sd_created_at = 1, sd_updated_at = 1, sd_name = Some ''A'',
              sd_email = Some ''a@x.com'', sd_phone = None, sd_address = None,
              sd_is_active = Some True\<rparr>" senders_two
        "SenderCreate_body ''C'' ''a@x.com'' None None None" 3
        1 "\<lparr>td_id = 1, td_created_at = 1, td_updated_at = 1, td_name = Some ''S1'',
              td_location = None, td_is_active = Some True\<rparr>" stations_one
        "\<lparr>tc_name = ''S1'', tc_location = Some ''Zone A'', tc_is_active = True\<rparr>" 2]
  by (simp add: senders_two_eq stations_one_eq SenderCreate_body_def)

text \<open>
  The error of a rejected create is the same for the conflicting value \<^verbatim>\<open>a@x.com\<close> and
  for \<^verbatim>\<open>b@x.com\<close>, and neither value occurs in its detail.
\<close>

theorem create_duplicate_error_text:
  "fst (create_sender 3 (SenderCreate_body ''C'' ''a@x.com'' None None None) senders_two)
     = Inl (HTTPException 400 ''Email already registered'')
   \<and> fst (create_sender 3 (SenderCreate_body ''C'' ''b@x.com'' None None None) senders_two)
     = Inl (HTTPException 400 ''Email already registered'')
   \<and> \<not> sublist ''a@x.com'' ''Email already registered''
   \<and> \<not> sublist ''b@x.com'' ''Email already registered''"
  by (simp add: create_sender_eq senders_two_eq SenderCreate_body_def sublist_Cons_right)

text \<open>
  Claim C8, as the code has it. A create of a sender whose email no stored row holds
  succeeds; the returned record, which is also the stored one, has the counter's value
  as \<^verbatim>\<open>id\<close>, \<^verbatim>\<open>created_at\<close> and \<^verbatim>\<open>updated_at\<close> both equal to the time of the call, the
  schema fields of the body, and \<^verbatim>\<open>is_active\<close> as the body has it: \<^verbatim>\<open>True\<close> when the
  caller leaves it out, the caller's value otherwise. \<^verbatim>\<open>id\<close> and the two timestamps do
  not depend on the body.
\<close>

theorem create_sender_record:
  assumes "\<forall>(k, d) \<in> set (senders_db st). sd_email d \<noteq> Some email"
  shows "\<exists>r st'. create_sender now (SenderCreate_body name email phone address is_active) st
                   = (Inr r, st')
     \<and> s_id r = senders_next_id st \<and> s_created_at r = now \<and> s_updated_at r = now
     \<and> s_is_active r = (case is_active of None \<Rightarrow> True | Some b \<Rightarrow> b)
     \<and> s_name r = name \<and> s_email r = email \<and> s_phone r = phone \<and> s_address r = address
     \<and> (\<exists>d. map_of (senders_db st') (senders_next_id st) = Some d \<and> mk_Sender d = Inr r)
     \<and> senders_next_id st' = senders_next_id st + 1"
proof -
  have "\<not> list_ex (\<lambda>d. sd_email d = Some email) (map snd (senders_db st))"
    using assms by (auto simp: list_ex_iff)
  then show ?thesis
    by (simp add: create_sender_eq SenderCreate_body_def update_conv' mk_Sender_def)
qed

text \<open>A third sender, created at time 7 without \<^verbatim>\<open>is_active\<close> in the body.\<close>

theorem create_sender_record_witness:
  "\<exists>r st'. create_sender 7 (SenderCreate_body ''C'' ''c@x.com'' (Some ''0812'') None None)
              senders_two = (Inr r, st')
     \<and> r = \<lparr>s_id = 3, s_created_at = 7, s_updated_at = 7, s_name = ''C'', s_email = ''c@x.com'',
            s_phone = Some ''0812'', s_address = None, s_is_active = True\<rparr>
     \<and> map_of (senders_db st') 3 =
         Some \<lparr>sd_id = 3, sd_created_at = 7, sd_updated_at = 7, sd_name = Some ''C'',
               sd_email = Some ''c@x.com'', sd_phone = Some ''0812'', sd_address = None,
               sd_is_active = Some True\<rparr>
     \<and> senders_next_id st' = 4"
proof -
  have "\<forall>(k, d) \<in> set (senders_db senders_two). sd_email d \<noteq> Some ''c@x.com''"
    by (simp add: senders_two_eq)
  from create_sender_record [OF this, of 7 "''C''" "Some ''0812''" None None]
  show ?thesis
    by (simp add: create_sender_eq SenderCreate_body_def senders_two_eq)
qed

text \<open>A create whose body has \<^verbatim>\<open>"is_active": false\<close> stores and returns an inactive record.\<close>

theorem create_sender_inactive:
  "fst (create_sender 1 (SenderCreate_body ''A'' ''a@x.com'' None None (Some False))
          senders_init)
     = Inr \<lparr>s_id = 1, s_created_at = 1, s_updated_at = 1, s_name = ''A'', s_email = ''a@x.com'',
            s_phone = None, s_address = None, s_is_active = False\<rparr>"
  by (simp add: create_sender_eq SenderCreate_body_def senders_init_def)

section \<open>Listing\<close>

lemma mk_Sender_id: "mk_Sender d = Inr s \<Longrightarrow> s_id s = sd_id d"
  by (auto simp: mk_Sender_def split: option.splits)

lemma mk_Sender_valid: "sender_data_valid d \<Longrightarrow> \<exists>s. mk_Sender d = Inr s"
  by (auto simp: mk_Sender_def sender_data_valid_def)

lemma mk_Sender_error: "mk_Sender d = Inl e \<Longrightarrow> e = ValidationError"
  by (auto simp: mk_Sender_def split: option.splits)

lemma build_all_error: "build_all mk_Sender rows = Inl e \<Longrightarrow> e = ValidationError"
  by (induction rows) (auto split: sum.splits dest: mk_Sender_error)

lemma get_senders_eq:
  "get_senders skip limit is_active st =
     build_all mk_Sender (py_slice (senders_matching is_active st) skip (skip + limit))"
  by (cases is_active) (simp_all add: get_senders_def senders_matching_def Let_def)

lemma get_senders_nonneg:
  "0 \<le> skip \<Longrightarrow> 0 \<le> limit \<Longrightarrow>
   get_senders skip limit is_active st =
     build_all mk_Sender (take (nat limit) (drop (nat skip) (senders_matching is_active st)))"
  by (simp add: get_senders_eq py_slice_nonneg)

lemma build_all_ids:
  assumes "build_all mk_Sender rows = Inr out"
  shows "map s_id out = map sd_id rows"
  using assms
proof (induction rows arbitrary: out)
  case Nil
  then show ?case by simp
next
  case (Cons d rows)
  then show ?case by (auto split: sum.splits dest: mk_Sender_id)
qed

lemma sorted_ids_page:
  assumes "sorted_wrt (<) (map sd_id rows)"
  shows "sorted_wrt (<) (map sd_id (take n (drop m (filter P rows))))"
proof -
  have "sorted_wrt (\<lambda>x y. sd_id x < sd_id y) rows"
    using assms by (simp add: sorted_wrt_map)
  then have "sorted_wrt (\<lambda>x y. sd_id x < sd_id y) (take n (drop m (filter P rows)))"
    by (intro sorted_wrt_take sorted_wrt_drop sorted_wrt_filter)
  then show ?thesis by (simp add: sorted_wrt_map)
qed

text \<open>
  Claim C6, as the code has it. \<open>get_senders\<close> does not check the range of \<^verbatim>\<open>skip\<close> and
  \<^verbatim>\<open>limit\<close>: whatever their signs it raises no \<^verbatim>\<open>HTTPException\<close>, and it returns a
  sequence whenever every matching row has its required fields. When \<^verbatim>\<open>skip\<close> is
  nonnegative and at least the number of matching rows (so also on the empty
  collection) it returns the empty sequence.
\<close>

theorem get_senders_bounds:
  "(0 \<le> skip \<and> int (length (senders_matching is_active st)) \<le> skip
      \<longrightarrow> get_senders skip limit is_active st = Inr [])
   \<and> ((\<forall>d \<in> set (senders_matching is_active st). sender_data_valid d)
      \<longrightarrow> (\<exists>out. get_senders skip limit is_active st = Inr out))
   \<and> get_senders skip limit is_active st \<noteq> Inl (HTTPException code detail)"
proof (intro conjI impI)
  assume "0 \<le> skip \<and> int (length (senders_matching is_active st)) \<le> skip"
  then show "get_senders skip limit is_active st = Inr []"
    by (simp add: get_senders_eq py_slice_beyond)
next
  assume ok: "\<forall>d \<in> set (senders_matching is_active st). sender_data_valid d"
  show "\<exists>out. get_senders skip limit is_active st = Inr out"
    unfolding get_senders_eq
  proof (rule build_all_ok)
    fix d assume "d \<in> set (py_slice (senders_matching is_active st) skip (skip + limit))"
    then have "d \<in> set (senders_matching is_active st)"
      by (rule subsetD [OF py_slice_subset])
    with ok show "\<exists>m. mk_Sender d = Inr m" by (simp add: mk_Sender_valid)
  qed
next
  show "get_senders skip limit is_active st \<noteq> Inl (HTTPException code detail)"
    unfolding get_senders_eq by (auto dest: build_all_error)
qed

text \<open>
  With two senders stored: a page that starts at 2 is empty, and a negative \<^verbatim>\<open>skip\<close>
  yields a sequence.
\<close>

theorem get_senders_bounds_witness:
  "get_senders 2 100 None senders_two = Inr []
   \<and> (\<exists>out. get_senders (-1) 100 (Some True) senders_two = Inr out)"
proof -
  have a: "0 \<le> (2::int) \<and> int (length (senders_matching None senders_two)) \<le> 2"
    by (simp add: senders_matching_def senders_two_eq)
  have b: "\<forall>d \<in> set (senders_matching (Some True) senders_two). sender_data_valid d"
    by (auto simp: senders_matching_def senders_two_eq sender_data_valid_def)
  from get_senders_bounds [of 2 None senders_two 100] a
  have "get_senders 2 100 None senders_two = Inr []" by blast
  moreover from get_senders_bounds [of "-1" "Some True" senders_two 100] b
  have "\<exists>out. get_senders (-1) 100 (Some True) senders_two = Inr out" by blast
  ultimately show ?thesis by blast
qed

text \<open>
  A negative \<^verbatim>\<open>skip\<close> and a negative \<^verbatim>\<open>limit\<close> are answered with Python's slices
  \<^verbatim>\<open>senders[-1:99]\<close> and \<^verbatim>\<open>senders[0:-1]\<close>, not with an error.
\<close>

theorem get_senders_negative_window:
  "get_senders (-1) 100 None senders_two =
     Inr [\<lparr>s_id = 2, s_created_at = 2, s_updated_at = 2, s_name = ''B'', s_email = ''b@x.com'',
           s_phone = None, s_address = None, s_is_active = True\<rparr>]
   \<and> get_senders 0 (-1) None senders_two =
     Inr [\<lparr>s_id = 1, s_created_at = 1, s_updated_at = 1, s_name = ''A'', s_email = ''a@x.com'',
           s_phone = None, s_address = None, s_is_active = True\<rparr>]"
  by (simp add: get_senders_def senders_two_eq py_slice_def slice_bound_def mk_Sender_def Let_def)

text \<open>
  Claim C7. In every state the senders router reaches from its initial globals, the
  rows are stored in strictly ascending order of \<^verbatim>\<open>id\<close> (storage order is insertion
  order), and for nonnegative \<^verbatim>\<open>skip\<close> and \<^verbatim>\<open>limit\<close> the list request builds its response
  from the rows that match the \<^verbatim>\<open>is_active\<close> filter, taken over the whole collection,
  after dropping the first \<^verbatim>\<open>skip\<close> of them and keeping at most \<^verbatim>\<open>limit\<close>: a contiguous
  slice of the filtered, id-ordered sequence. A returned sequence carries the ids of
  that slice, in ascending order.
\<close>

theorem get_senders_page:
  assumes "0 \<le> skip" and "0 \<le> limit" and "st = snd (serve rs senders_init)"
  shows "sorted_wrt (<) (map sd_id (map snd (senders_db st)))
     \<and> get_senders skip limit is_active st =
         build_all mk_Sender
           (take (nat limit) (drop (nat skip) (senders_matching is_active st)))
     \<and> (\<forall>out. get_senders skip limit is_active st = Inr out \<longrightarrow>
           map s_id out =
             map sd_id (take (nat limit) (drop (nat skip) (senders_matching is_active st)))
           \<and> sorted_wrt (<) (map s_id out))"
proof -
  have inv: "senders_inv st"
    using assms(3) senders_inv_init by (simp add: senders_inv_serve)
  then have sorted: "sorted_wrt (<) (map sd_id (map snd (senders_db st)))"
    by (rule senders_inv_ids_sorted)
  let ?page = "take (nat limit) (drop (nat skip) (senders_matching is_active st))"
  have eq: "get_senders skip limit is_active st = build_all mk_Sender ?page"
    using assms(1,2) by (rule get_senders_nonneg)
  have page_sorted: "sorted_wrt (<) (map sd_id ?page)"
    unfolding senders_matching_def using sorted by (rule sorted_ids_page)
  have "map s_id out = map sd_id ?page \<and> sorted_wrt (<) (map s_id out)"
    if "get_senders skip limit is_active st = Inr out" for out
  proof -
    from that eq have "build_all mk_Sender ?page = Inr out" by simp
    then have "map s_id out = map sd_id ?page" by (rule build_all_ids)
    with page_sorted show ?thesis by simp
  qed
  with sorted eq show ?thesis by blast
qed

text \<open>
  After the longer run the senders 2 (inactive), 3 and 4 are stored; the second page of
  size 1 of the active ones is sender 4.
\<close>

theorem get_senders_page_witness:
  "get_senders 1 1 (Some True) (snd (serve senders_busy senders_init)) =
     Inr [\<lparr>s_id = 4, s_created_at = 5, s_updated_at = 5, s_name = ''D'', s_email = ''d@x.com'',
           s_phone = None, s_address = None, s_is_active = True\<rparr>]
   \<and> map sd_id (map snd (senders_db (snd (serve senders_busy senders_init)))) = [2, 3, 4]"
  using get_senders_page [of 1 1 "snd (serve senders_busy senders_init)" senders_busy "Some True"]
  by (simp add: senders_busy_state senders_matching_def mk_Sender_def)

section \<open>Activation\<close>

text \<open>
  On a row with a name and an email, activating (or deactivating) succeeds, sets the
  flag and the time of the call, and keeps the other fields; a second call does the
  same with its own time.
\<close>

lemma set_sender_active_valid:
  assumes "map_of (senders_db st) i = Some d" and "sd_name d = Some n" and "sd_email d = Some e"
  shows "set_sender_active flag now i st =
     (Inr \<lparr>s_id = sd_id d, s_created_at = sd_created_at d, s_updated_at = now, s_name = n,
           s_email = e, s_phone = sd_phone d, s_address = sd_address d, s_is_active = flag\<rparr>,
      st\<lparr>senders_db :=
           AList.update i (d\<lparr>sd_is_active := Some flag, sd_updated_at := now\<rparr>)
             (senders_db st)\<rparr>)"
  using assms by (simp add: set_sender_active_def mk_Sender_def Let_def)

lemma set_sender_active_twice:
  assumes "map_of (senders_db st) i = Some d" and "sd_name d = Some n" and "sd_email d = Some e"
  shows "set_sender_active flag now2 i (snd (set_sender_active flag now1 i st)) =
     (Inr \<lparr>s_id = sd_id d, s_created_at = sd_created_at d, s_updated_at = now2, s_name = n,
           s_email = e, s_phone = sd_phone d, s_address = sd_address d, s_is_active = flag\<rparr>,
      st\<lparr>senders_db :=
           AList.update i (d\<lparr>sd_is_active := Some flag, sd_updated_at := now2\<rparr>)
             (senders_db st)\<rparr>)"
proof -
  let ?d1 = "d\<lparr>sd_is_active := Some flag, sd_updated_at := now1\<rparr>"
  let ?st1 = "st\<lparr>senders_db := AList.update i ?d1 (senders_db st)\<rparr>"
  have st1: "snd (set_sender_active flag now1 i st) = ?st1"
    using assms by (simp add: set_sender_active_valid)
  have "map_of (senders_db ?st1) i = Some ?d1" by (simp add: update_conv')
  moreover have "sd_name ?d1 = Some n" "sd_email ?d1 = Some e" using assms by simp_all
  ultimately have "set_sender_active flag now2 i ?st1 =
     (Inr \<lparr>s_id = sd_id ?d1, s_created_at = sd_created_at ?d1, s_updated_at = now2, s_name = n,
           s_email = e, s_phone = sd_phone ?d1, s_address = sd_address ?d1, s_is_active = flag\<rparr>,
      ?st1\<lparr>senders_db :=
           AList.update i (?d1\<lparr>sd_is_active := Some flag, sd_updated_at := now2\<rparr>)
             (senders_db ?st1)\<rparr>)"
    by (rule set_sender_active_valid)
  then show ?thesis by (simp add: st1)
qed

text \<open>
  Claim C9 (activating or deactivating an existing record succeeds, twice in a row)
  fails on a record the store can hold. \<^verbatim>\<open>PUT /senders/1\<close> with \<^verbatim>\<open>{"name": null}\<close> has
  written \<^verbatim>\<open>None\<close> under \<^verbatim>\<open>name\<close> before it raised; every later activation or
  deactivation of sender 1 writes the flag and the time and then raises the validation
  error when it builds \<^verbatim>\<open>Sender(**senders_db[sender_id])\<close>.
\<close>

theorem activate_sender_after_null_name:
  "fst (update_sender 3 1 (SenderUpdate_empty\<lparr>su_name := Supplied None\<rparr>) senders_two)
     = Inl ValidationError
   \<and> map_of (senders_db senders_null_name) 1 =
       Some \<lparr>sd_id = 1, sd_created_at = 1, sd_updated_at = 3, sd_name = None,
             sd_email = Some ''a@x.com'', sd_phone = None, sd_address = None,
             sd_is_active = Some True\<rparr>
   \<and> fst (activate_sender 4 1 senders_null_name) = Inl ValidationError
   \<and> fst (activate_sender 5 1 (snd (activate_sender 4 1 senders_null_name)))
     = Inl ValidationError
   \<and> fst (deactivate_sender 4 1 senders_null_name) = Inl ValidationError"
  by (simp add: update_sender_null_name senders_null_name_eq activate_sender_eq
      deactivate_sender_eq set_sender_active_def mk_Sender_def Let_def)


section \<open>Further scenarios\<close>

text \<open>
  A request for an id that is not stored is answered with 404 and leaves the globals,
  for a read as for an activation, a deactivation or a deletion.
\<close>

lemma missing_sender:
  assumes "map_of (senders_db st) i = None"
  shows "get_sender i st = Inl (HTTPException 404 ''Sender not found'')"
    and "activate_sender now i st = (Inl (HTTPException 404 ''Sender not found''), st)"
    and "deactivate_sender now i st = (Inl (HTTPException 404 ''Sender not found''), st)"
    and "delete_sender i st = (Inl (HTTPException 404 ''Sender not found''), st)"
    and "update_sender now i u st = (Inl (HTTPException 404 ''Sender not found''), st)"
  using assms
  by (simp_all add: get_sender_def activate_sender_eq deactivate_sender_eq
      set_sender_active_def delete_sender_def update_sender_def)

text \<open>
  Station \<^verbatim>\<open>S1\<close> is given a location at time 4: the name stays, the location is set, and
  \<^verbatim>\<open>updated_at\<close> is the time of the call.
\<close>

lemma update_station_location:
  "update_station 4 1 (StationUpdate_empty\<lparr>tu_location := Supplied (Some ''Zone A'')\<rparr>)
       stations_one =
     (Inr \<lparr>t_id = 1, t_created_at = 1, t_updated_at = 4, t_name = ''S1'',
           t_location = Some ''Zone A'', t_is_active = True\<rparr>,
      \<lparr>stations_db =
         [(1, \<lparr>td_id = 1, td_created_at = 1, td_updated_at = 4, td_name = Some ''S1'',
               td_location = Some ''Zone A'', td_is_active = Some True\<rparr>)],
       stations_next_id = 2\<rparr>)"
  by (simp add: update_station_def stations_one_eq StationUpdate_empty_def tu_unset_def
      mk_Station_def Let_def)

text \<open>An update of a station with no field supplied builds its response from the stored
  row and leaves the globals.\<close>

lemma update_station_empty:
  assumes "map_of (stations_db st) i = Some d" and "tu_unset u"
  shows "update_station now i u st = (mk_Station d, st)"
proof -
  have "attr (tu_name u) = None" using assms(2) by (simp add: tu_unset_def)
  then show ?thesis using assms by (simp add: update_station_def)
qed


text \<open>
  When exactly an update of a sender is refused as a duplicate: the id is stored, the
  supplied email is truthy, and a row under another id holds that email.
\<close>

lemma update_sender_refused_iff:
  "fst (update_sender now i u st) = Inl (HTTPException 400 detail) \<longleftrightarrow>
     detail = ''Email already registered''
     \<and> map_of (senders_db st) i \<noteq> None
     \<and> truthy (attr (su_email u))
     \<and> (\<exists>(k, e) \<in> set (senders_db st). k \<noteq> i \<and> sd_email e = attr (su_email u))"
proof (cases "map_of (senders_db st) i")
  case None
  then show ?thesis by (simp add: update_sender_def)
next
  case (Some d)
  have no_http: "mk_Sender x \<noteq> Inl (HTTPException 400 detail)" for x
    by (auto dest: mk_Sender_error)
  have ex: "list_ex (\<lambda>(sid, existing). sid \<noteq> i \<and> sd_email existing = attr (su_email u))
              (senders_db st)
        \<longleftrightarrow> (\<exists>(k, e) \<in> set (senders_db st). k \<noteq> i \<and> sd_email e = attr (su_email u))"
    by (simp add: list_ex_iff)
  show ?thesis
    using Some no_http by (auto simp: update_sender_def Let_def ex)
qed

text \<open>The second entry point has the behaviour of the first.\<close>

lemma patch_sender_eq: "patch_sender = update_sender"
  by (intro ext) (simp add: patch_sender_def)

end
